theory Spec2Isabelle
  imports Main
begin

section \<open>Python values used by \<^verbatim>\<open>app.py\<close>\<close>

text \<open>
  A Python \<^verbatim>\<open>str\<close> is a sequence of Unicode code points, and \<^verbatim>\<open>len\<close> counts code
  points. A string is therefore modelled as a list of code points (natural numbers), not
  as a list of bytes. \<open>py\<close> turns an ASCII literal of the source into such a string.
\<close>

type_synonym pystr = "nat list"

definition py :: "string \<Rightarrow> pystr" where
  "py cs = map of_char cs"

text \<open>
  \<^verbatim>\<open>str(n)\<close> for an integer, as used by the f-strings of the source: decimal digits, most
  significant first, with a leading minus sign for a negative number.
\<close>

fun str_nat :: "nat \<Rightarrow> pystr" where
  "str_nat n = (if n < 10 then [48 + n] else str_nat (n div 10) @ [48 + n mod 10])"

definition str_int :: "int \<Rightarrow> pystr" where
  "str_int i = (if i < 0 then 45 # str_nat (nat (- i)) else str_nat (nat i))"

text \<open>
  \<^verbatim>\<open>str.strip()\<close> removes leading and trailing characters for which \<^verbatim>\<open>str.isspace()\<close>
  holds. \<open>isspace\<close> lists the code points CPython classifies as whitespace.
\<close>

definition isspace :: "nat \<Rightarrow> bool" where
  "isspace c = ((9 \<le> c \<and> c \<le> 13) \<or> (28 \<le> c \<and> c \<le> 32) \<or> c = 133 \<or> c = 160
       \<or> c = 5760 \<or> (8192 \<le> c \<and> c \<le> 8202) \<or> c = 8232 \<or> c = 8233 \<or> c = 8239
       \<or> c = 8287 \<or> c = 12288)"

definition strip :: "pystr \<Rightarrow> pystr" where
  "strip s = rev (dropWhile isspace (rev (dropWhile isspace s)))"

text \<open>The slice \<^verbatim>\<open>xs[i:j]\<close> for \<open>0 \<le> i \<le> j\<close>, clamped to the length as in Python.\<close>

definition slice :: "nat \<Rightarrow> nat \<Rightarrow> 'a list \<Rightarrow> 'a list" where
  "slice i j xs = take (j - i) (drop i xs)"

text \<open>
  The values produced by \<^verbatim>\<open>request.json\<close> and consumed by \<^verbatim>\<open>jsonify\<close> and
  \<^verbatim>\<open>requests.patch(json=...)\<close>. A \<^verbatim>\<open>dict\<close> is an association list with distinct keys,
  looked up with \<open>map_of\<close>; a float is kept as mantissa and binary exponent, which the
  program never inspects.
\<close>

datatype json =
    JNull
  | JBool bool
  | JInt int
  | JFloat int int
  | JStr pystr
  | JArr "json list"
  | JObj "(pystr \<times> json) list"

text \<open>Truthiness of a value that is \<^verbatim>\<open>None\<close> or a \<^verbatim>\<open>str\<close>: \<^verbatim>\<open>not v\<close> is \<open>\<not> truthy v\<close>.\<close>

definition truthy :: "pystr option \<Rightarrow> bool" where
  "truthy v = (case v of None \<Rightarrow> False | Some s \<Rightarrow> s \<noteq> [])"

text \<open>How an f-string renders a value that is \<^verbatim>\<open>None\<close> or a \<^verbatim>\<open>str\<close>.\<close>

definition fmt :: "pystr option \<Rightarrow> pystr" where
  "fmt v = (case v of None \<Rightarrow> py ''None'' | Some s \<Rightarrow> s)"

section \<open>Logging\<close>

datatype level = DEBUG | INFO | WARNING | ERROR

type_synonym log_entry = "level \<times> pystr"

section \<open>Configuration\<close>

text \<open>
  The module-level constants \<^verbatim>\<open>NOTION_TOKEN\<close>, \<^verbatim>\<open>PAGE_ID\<close> and \<^verbatim>\<open>NOTION_VERSION\<close>.
  \<^verbatim>\<open>os.environ.get(k)\<close> is \<^verbatim>\<open>None\<close> for an unset variable; for \<^verbatim>\<open>NOTION_PAGE_ID\<close> the
  source passes a default, so \<^verbatim>\<open>PAGE_ID\<close> is a string whenever it comes from
  \<open>load_config\<close>.
\<close>

record config =
  NOTION_TOKEN :: "pystr option"
  PAGE_ID :: "pystr option"

definition DEFAULT_PAGE_ID :: pystr where
  "DEFAULT_PAGE_ID = py ''2020b70967ed803ba28fdc5ed49984a0''"

definition NOTION_VERSION :: pystr where
  "NOTION_VERSION = py ''2022-06-28''"

definition load_config :: "(string \<rightharpoonup> pystr) \<Rightarrow> config" where
  "load_config environ =
     \<lparr> NOTION_TOKEN = environ ''NOTION_TOKEN'',
       PAGE_ID = (case environ ''NOTION_PAGE_ID'' of
                    None \<Rightarrow> Some DEFAULT_PAGE_ID
                  | Some v \<Rightarrow> Some v) \<rparr>"

subsection \<open>\<^verbatim>\<open>format_uuid\<close>\<close>

text \<open>Returns the value of the call together with the log lines it writes.\<close>

definition format_uuid :: "pystr \<Rightarrow> pystr option \<times> log_entry list" where
  "format_uuid raw =
     (if length raw \<noteq> 32 then
        (None, [(ERROR, py ''Invalid UUID length: '' @ str_int (int (length raw))
                          @ py '', expected 32'')])
      else
        (Some (slice 0 8 raw @ py ''-'' @ slice 8 12 raw @ py ''-'' @ slice 12 16 raw
               @ py ''-'' @ slice 16 20 raw @ py ''-'' @ drop 20 raw), []))"

subsection \<open>\<^verbatim>\<open>validate_notion_config\<close>\<close>

definition validate_notion_config :: "config \<Rightarrow> bool \<times> pystr" where
  "validate_notion_config cfg =
     (if \<not> truthy (NOTION_TOKEN cfg) then
        (False, py ''NOTION_TOKEN environment variable is required'')
      else if \<not> truthy (PAGE_ID cfg) then
        (False, py ''NOTION_PAGE_ID environment variable is required'')
      else (True, py ''Configuration valid''))"

section \<open>Requests, responses and the outside world\<close>

text \<open>
  The exceptions the handler can meet, by class, each with its \<^verbatim>\<open>str(e)\<close>. The first six
  classes are those of \<^verbatim>\<open>requests.exceptions\<close>; \<open>is_Timeout\<close> and \<open>is_ConnectionError\<close>
  are the \<^verbatim>\<open>isinstance\<close> tests behind the two \<^verbatim>\<open>except\<close> clauses
  (\<^verbatim>\<open>ConnectTimeout\<close> inherits from both \<^verbatim>\<open>ConnectionError\<close> and \<^verbatim>\<open>Timeout\<close>). All of them
  are subclasses of \<^verbatim>\<open>Exception\<close>.
\<close>

datatype exn_class =
    Timeout | ReadTimeout | ConnectTimeout | ConnectionError | SSLError | ProxyError
  | AttributeError | TypeError | BadRequest | OtherException

datatype exn = Exn exn_class pystr

fun exn_str :: "exn \<Rightarrow> pystr" where
  "exn_str (Exn _ msg) = msg"

fun is_Timeout :: "exn \<Rightarrow> bool" where
  "is_Timeout (Exn Timeout _) = True"
| "is_Timeout (Exn ReadTimeout _) = True"
| "is_Timeout (Exn ConnectTimeout _) = True"
| "is_Timeout (Exn _ _) = False"

fun is_ConnectionError :: "exn \<Rightarrow> bool" where
  "is_ConnectionError (Exn ConnectionError _) = True"
| "is_ConnectionError (Exn ConnectTimeout _) = True"
| "is_ConnectionError (Exn SSLError _) = True"
| "is_ConnectionError (Exn ProxyError _) = True"
| "is_ConnectionError (Exn _ _) = False"

text \<open>
  The inbound request as the handler reads it: \<^verbatim>\<open>request.is_json\<close>, \<^verbatim>\<open>request.json\<close>
  (which raises when the body does not parse) and \<^verbatim>\<open>request.form\<close>.
\<close>

record request =
  is_json :: bool
  get_json :: "exn + json"
  form :: "(pystr \<times> pystr) list"

text \<open>
  A response is \<^verbatim>\<open>jsonify(obj), code\<close> or \<^verbatim>\<open>redirect(url_for('index'))\<close>; Flask sends the
  latter with status 302.
\<close>

datatype response = JsonResponse json int | RedirectResponse pystr

fun http_status :: "response \<Rightarrow> int" where
  "http_status (JsonResponse _ code) = code"
| "http_status (RedirectResponse _) = 302"

definition url_for_index :: pystr where
  "url_for_index = py ''/''"

text \<open>The arguments of \<^verbatim>\<open>requests.patch\<close> and what the call can do.\<close>

record outbound =
  http_method :: pystr
  url :: pystr
  headers :: "(pystr \<times> pystr) list"
  json_data :: json
  timeout :: int

record upstream =
  status_code :: int
  text_of :: pystr

datatype outcome = Returns upstream | Raises exn

text \<open>
  Everything a handler does besides returning: the lines it logs, the outbound HTTP calls
  it makes and the messages it flashes (message, category), each in program order.
\<close>

record effects =
  logs :: "log_entry list"
  calls :: "outbound list"
  flashes :: "(pystr \<times> pystr) list"

definition no_effects :: effects where
  "no_effects = \<lparr> logs = [], calls = [], flashes = [] \<rparr>"

definition logger :: "level \<Rightarrow> pystr \<Rightarrow> effects \<Rightarrow> effects" where
  "logger lvl msg eff = eff \<lparr> logs := logs eff @ [(lvl, msg)] \<rparr>"

definition flash :: "pystr \<Rightarrow> pystr \<Rightarrow> effects \<Rightarrow> effects" where
  "flash msg category eff = eff \<lparr> flashes := flashes eff @ [(msg, category)] \<rparr>"

definition requests_patch ::
  "(outbound \<Rightarrow> outcome) \<Rightarrow> outbound \<Rightarrow> effects \<Rightarrow> outcome \<times> effects" where
  "requests_patch net out eff = (net out, eff \<lparr> calls := calls eff @ [out] \<rparr>)"

section \<open>\<^verbatim>\<open>write_note\<close>\<close>

text \<open>The two JSON bodies the handler builds.\<close>

definition error_body :: "pystr \<Rightarrow> json" where
  "error_body message =
     JObj [(py ''status'', JStr (py ''error'')), (py ''message'', JStr message)]"

definition success_body :: json where
  "success_body =
     JObj [(py ''status'', JStr (py ''success'')),
           (py ''message'', JStr (py ''Note written successfully''))]"

text \<open>
  Lines 52 to 55 without the \<^verbatim>\<open>.strip()\<close>: \<^verbatim>\<open>request.json.get('content', '')\<close> or
  \<^verbatim>\<open>request.form.get('content', '')\<close>. Only a \<^verbatim>\<open>dict\<close> has \<^verbatim>\<open>get\<close>.
\<close>

fun type_name :: "json \<Rightarrow> pystr" where
  "type_name JNull = py ''NoneType''"
| "type_name (JBool _) = py ''bool''"
| "type_name (JInt _) = py ''int''"
| "type_name (JFloat _ _) = py ''float''"
| "type_name (JStr _) = py ''str''"
| "type_name (JArr _) = py ''list''"
| "type_name (JObj _) = py ''dict''"

definition quoted :: "pystr \<Rightarrow> pystr" where
  "quoted s = 39 # s @ [39]"

definition no_attribute :: "json \<Rightarrow> string \<Rightarrow> exn" where
  "no_attribute v attr =
     Exn AttributeError
       (quoted (type_name v) @ py '' object has no attribute '' @ quoted (py attr))"

definition raw_content :: "request \<Rightarrow> exn + json" where
  "raw_content req =
     (if is_json req then
        (case get_json req of
           Inl e \<Rightarrow> Inl e
         | Inr (JObj kvs) \<Rightarrow>
             Inr (case map_of kvs (py ''content'') of None \<Rightarrow> JStr [] | Some v \<Rightarrow> v)
         | Inr v \<Rightarrow> Inl (no_attribute v ''get''))
      else
        Inr (JStr (case map_of (form req) (py ''content'') of None \<Rightarrow> [] | Some v \<Rightarrow> v)))"

text \<open>The \<^verbatim>\<open>.strip()\<close> call on that value: only a \<^verbatim>\<open>str\<close> has the method.\<close>

fun call_strip :: "json \<Rightarrow> exn + pystr" where
  "call_strip (JStr s) = Inr (strip s)"
| "call_strip v = Inl (no_attribute v ''strip'')"

definition get_content :: "request \<Rightarrow> exn + pystr" where
  "get_content req = (case raw_content req of Inl e \<Rightarrow> Inl e | Inr v \<Rightarrow> call_strip v)"

text \<open>\<^verbatim>\<open>format_uuid(PAGE_ID)\<close>: \<^verbatim>\<open>len(None)\<close> raises.\<close>

definition call_format_uuid :: "pystr option \<Rightarrow> exn + (pystr option \<times> log_entry list)" where
  "call_format_uuid page_id =
     (case page_id of
        None \<Rightarrow>
          Inl (Exn TypeError
                 (py ''object of type '' @ quoted (py ''NoneType'') @ py '' has no len()''))
      | Some raw \<Rightarrow> Inr (format_uuid raw))"

text \<open>
  The pattern that ends the non-200 branch and each \<^verbatim>\<open>except\<close> clause (lines 109-113,
  118-122, 127-131, 136-140).
\<close>

definition error_response :: "request \<Rightarrow> pystr \<Rightarrow> int \<Rightarrow> effects \<Rightarrow> response \<times> effects" where
  "error_response req error_message code eff =
     (if is_json req then (JsonResponse (error_body error_message) code, eff)
      else (RedirectResponse url_for_index,
            flash (py ''Error: '' @ error_message) (py ''error'') eff))"

text \<open>Lines 67 to 113: build the call, make it, map an HTTP answer.\<close>

definition notion_url :: "pystr option \<Rightarrow> pystr" where
  "notion_url block_id = py ''https://api.notion.com/v1/blocks/'' @ fmt block_id @ py ''/children''"

definition notion_headers :: "config \<Rightarrow> (pystr \<times> pystr) list" where
  "notion_headers cfg =
     [(py ''Authorization'', py ''Bearer '' @ fmt (NOTION_TOKEN cfg)),
      (py ''Content-Type'', py ''application/json''),
      (py ''Notion-Version'', NOTION_VERSION)]"

definition notion_data :: "pystr \<Rightarrow> json" where
  "notion_data content =
     JObj [(py ''children'',
       JArr [JObj [(py ''object'', JStr (py ''block'')),
                   (py ''type'', JStr (py ''paragraph'')),
                   (py ''paragraph'',
                      JObj [(py ''rich_text'',
                        JArr [JObj [(py ''type'', JStr (py ''text'')),
                                    (py ''text'', JObj [(py ''content'', JStr content)])]])])]])]"

definition send_note ::
  "config \<Rightarrow> (outbound \<Rightarrow> outcome) \<Rightarrow> request \<Rightarrow> pystr \<Rightarrow> pystr option \<Rightarrow> effects
     \<Rightarrow> (exn + response) \<times> effects" where
  "send_note cfg net req content block_id eff0 =
     (let out = \<lparr> http_method = py ''PATCH'', url = notion_url block_id,
                  headers = notion_headers cfg, json_data = notion_data content,
                  timeout = 10 \<rparr>;
          eff1 = logger INFO (py ''Sending note to Notion: '' @ take 50 content @ py ''...'') eff0;
          (result, eff2) = requests_patch net out eff1
      in case result of
           Raises e \<Rightarrow> (Inl e, eff2)
         | Returns response \<Rightarrow>
             if status_code response = 200 then
               (let eff3 = logger INFO (py ''Note successfully written to Notion'') eff2
                in if is_json req then (Inr (JsonResponse success_body 200), eff3)
                   else (Inr (RedirectResponse url_for_index),
                         flash (py ''Note written successfully!'') (py ''success'') eff3))
             else
               (let error_detail = text_of response;
                    eff3 = logger ERROR (py ''Notion API error: '' @ str_int (status_code response)
                                           @ py '' - '' @ error_detail) eff2;
                    error_message = py ''Failed to write note to Notion: ''
                                      @ str_int (status_code response);
                    (resp, eff4) = error_response req error_message (status_code response) eff3
                in (Inr resp, eff4)))"

text \<open>Lines 45 to 65, the body of the \<^verbatim>\<open>try\<close> up to the call: an exception is \<open>Inl\<close>.\<close>

definition write_note_try ::
  "config \<Rightarrow> (outbound \<Rightarrow> outcome) \<Rightarrow> request \<Rightarrow> (exn + response) \<times> effects" where
  "write_note_try cfg net req =
     (let (config_valid, config_message) = validate_notion_config cfg
      in if \<not> config_valid then
           (Inr (JsonResponse (error_body config_message) 400),
            logger ERROR (py ''Configuration error: '' @ config_message) no_effects)
         else
           (case get_content req of
              Inl e \<Rightarrow> (Inl e, no_effects)
            | Inr content \<Rightarrow>
                if content = [] then
                  (Inr (JsonResponse (error_body (py ''Content cannot be empty'')) 400),
                   logger WARNING (py ''Empty content provided'') no_effects)
                else
                  (case call_format_uuid (PAGE_ID cfg) of
                     Inl e \<Rightarrow> (Inl e, no_effects)
                   | Inr (block_id, uuid_logs) \<Rightarrow>
                       (let eff = no_effects \<lparr> logs := uuid_logs \<rparr>
                        in if \<not> truthy block_id then
                             (Inr (JsonResponse (error_body (py ''Invalid PAGE_ID format'')) 400),
                              logger ERROR
                                (py ''Failed to format PAGE_ID: '' @ fmt (PAGE_ID cfg)) eff)
                           else send_note cfg net req content block_id eff))))"

text \<open>The whole handler: the \<^verbatim>\<open>try\<close> body and the three \<^verbatim>\<open>except\<close> clauses, in order.\<close>

definition write_note ::
  "config \<Rightarrow> (outbound \<Rightarrow> outcome) \<Rightarrow> request \<Rightarrow> response \<times> effects" where
  "write_note cfg net req =
     (case write_note_try cfg net req of
        (Inr resp, eff) \<Rightarrow> (resp, eff)
      | (Inl e, eff) \<Rightarrow>
          if is_Timeout e then
            error_response req (py ''Request timeout - Notion API did not respond in time'') 408
              (logger ERROR (py ''Timeout while connecting to Notion API'') eff)
          else if is_ConnectionError e then
            error_response req (py ''Connection error - Unable to reach Notion API'') 503
              (logger ERROR (py ''Connection error while connecting to Notion API'') eff)
          else
            error_response req (py ''An unexpected error occurred'') 500
              (logger ERROR (py ''Unexpected error: '' @ exn_str e) eff))"

section \<open>\<^verbatim>\<open>health_check\<close>\<close>

text \<open>\<^verbatim>\<open>jsonify(obj)\<close> without a code is sent with status 200.\<close>

definition health_check :: "config \<Rightarrow> response \<times> effects" where
  "health_check cfg =
     (let (config_valid, config_message) = validate_notion_config cfg
      in (JsonResponse
            (JObj [(py ''status'', JStr (py ''healthy'')),
                   (py ''notion_configured'', JBool config_valid),
                   (py ''message'', JStr config_message)]) 200,
          no_effects))"

section \<open>Properties\<close>

text \<open>
  Helper facts about the string operations.
\<close>

lemma hyphen: "py ''-'' = [45]" by (simp add: py_def)

lemma slices_join:
  "slice 0 8 raw @ slice 8 12 raw @ slice 12 16 raw @ slice 16 20 raw @ drop 20 raw = raw"
proof -
  have step: "take n xs @ take m (drop n xs) = take (n + m) xs" for n m and xs :: "'a list"
    by (simp add: take_add)
  have "take 8 raw @ take 4 (drop 8 raw) = take 12 raw"
    using step [of 8 raw 4] by simp
  moreover have "take 12 raw @ take 4 (drop 12 raw) = take 16 raw"
    using step [of 12 raw 4] by simp
  moreover have "take 16 raw @ take 4 (drop 16 raw) = take 20 raw"
    using step [of 16 raw 4] by simp
  ultimately have "take 8 raw @ take 4 (drop 8 raw) @ take 4 (drop 12 raw)
      @ take 4 (drop 16 raw) @ drop 20 raw = take 20 raw @ drop 20 raw"
    by (metis append.assoc)
  then show ?thesis by (simp add: slice_def)
qed

text \<open>
  \<open>str_nat\<close> writes a number in decimal: its characters are digits, and reading them back
  gives the number. Its defining equation is recursive without a guard, so it is taken out
  of the simplifier's rules.
\<close>

declare str_nat.simps [simp del]

lemma str_nat_small: "n < 10 \<Longrightarrow> str_nat n = [48 + n]"
  by (subst str_nat.simps) simp

lemma str_nat_large: "\<not> n < 10 \<Longrightarrow> str_nat n = str_nat (n div 10) @ [48 + n mod 10]"
  by (subst str_nat.simps) simp

lemma str_nat_decimal:
  "foldl (\<lambda>acc d. 10 * acc + (d - 48)) 0 (str_nat n) = n"
proof (induction n rule: str_nat.induct)
  case (1 n)
  show ?case
  proof (cases "n < 10")
    case True
    then show ?thesis by (simp add: str_nat_small)
  next
    case False
    then have "foldl (\<lambda>acc d. 10 * acc + (d - 48)) 0 (str_nat (n div 10)) = n div 10"
      using "1" by simp
    with False show ?thesis
      by (simp add: str_nat_large)
  qed
qed

lemma str_nat_digits: "d \<in> set (str_nat n) \<Longrightarrow> 48 \<le> d \<and> d \<le> 57"
proof (induction n rule: str_nat.induct)
  case (1 n)
  show ?case
  proof (cases "n < 10")
    case True
    with "1.prems" show ?thesis by (simp add: str_nat_small)
  next
    case False
    have "n mod 10 \<le> 9" by simp
    with False "1" show ?thesis
      by (auto simp add: str_nat_large)
  qed
qed

text \<open>Helper facts about the handler: one for each way through the \<^verbatim>\<open>try\<close> body.\<close>

lemma valid_config_iff:
  "fst (validate_notion_config cfg) \<longleftrightarrow> truthy (NOTION_TOKEN cfg) \<and> truthy (PAGE_ID cfg)"
  by (simp add: validate_notion_config_def)

lemma valid_config_result:
  "fst (validate_notion_config cfg) \<Longrightarrow>
     validate_notion_config cfg = (True, py ''Configuration valid'')"
  by (simp add: validate_notion_config_def split: if_splits)

lemma truthy_Some: "truthy v \<Longrightarrow> \<exists>s. v = Some s \<and> s \<noteq> []"
  by (cases v) (simp_all add: truthy_def)

lemma write_note_try_invalid:
  "\<not> fst (validate_notion_config cfg) \<Longrightarrow>
     write_note_try cfg net req =
       (Inr (JsonResponse (error_body (snd (validate_notion_config cfg))) 400),
        logger ERROR (py ''Configuration error: '' @ snd (validate_notion_config cfg)) no_effects)"
  by (cases "validate_notion_config cfg") (simp add: write_note_try_def)

lemma write_note_try_raise:
  "fst (validate_notion_config cfg) \<Longrightarrow> get_content req = Inl e \<Longrightarrow>
     write_note_try cfg net req = (Inl e, no_effects)"
  by (cases "validate_notion_config cfg") (simp add: write_note_try_def)

lemma write_note_try_empty:
  "fst (validate_notion_config cfg) \<Longrightarrow> get_content req = Inr [] \<Longrightarrow>
     write_note_try cfg net req =
       (Inr (JsonResponse (error_body (py ''Content cannot be empty'')) 400),
        logger WARNING (py ''Empty content provided'') no_effects)"
  by (cases "validate_notion_config cfg") (simp add: write_note_try_def)

lemma write_note_try_bad_id:
  "fst (validate_notion_config cfg) \<Longrightarrow> get_content req = Inr c \<Longrightarrow> c \<noteq> [] \<Longrightarrow>
   PAGE_ID cfg = Some pid \<Longrightarrow> length pid \<noteq> 32 \<Longrightarrow>
     write_note_try cfg net req =
       (Inr (JsonResponse (error_body (py ''Invalid PAGE_ID format'')) 400),
        logger ERROR (py ''Failed to format PAGE_ID: '' @ pid)
          (no_effects \<lparr> logs := snd (format_uuid pid) \<rparr>))"
  by (cases "validate_notion_config cfg")
    (simp add: write_note_try_def call_format_uuid_def format_uuid_def truthy_def fmt_def)

lemma format_uuid_truthy:
  "length pid = 32 \<Longrightarrow> truthy (fst (format_uuid pid)) \<and> snd (format_uuid pid) = []"
  by (simp add: format_uuid_def truthy_def)

lemma write_note_try_send:
  "fst (validate_notion_config cfg) \<Longrightarrow> get_content req = Inr c \<Longrightarrow> c \<noteq> [] \<Longrightarrow>
   PAGE_ID cfg = Some pid \<Longrightarrow> length pid = 32 \<Longrightarrow>
     write_note_try cfg net req =
       send_note cfg net req c (fst (format_uuid pid)) (no_effects \<lparr> logs := [] \<rparr>)"
  using format_uuid_truthy [of pid]
  by (cases "validate_notion_config cfg"; cases "format_uuid pid")
    (simp add: write_note_try_def call_format_uuid_def)

lemma calls_logger [simp]: "calls (logger lvl msg eff) = calls eff"
  by (simp add: logger_def)

lemma calls_flash [simp]: "calls (flash msg cat eff) = calls eff"
  by (simp add: flash_def)

lemma flashes_logger [simp]: "flashes (logger lvl msg eff) = flashes eff"
  by (simp add: logger_def)

lemma calls_error_response [simp]:
  "calls (snd (error_response req msg code eff)) = calls eff"
  by (simp add: error_response_def)

lemma calls_write_note:
  "calls (snd (write_note cfg net req)) = calls (snd (write_note_try cfg net req))"
  by (simp add: write_note_def split: prod.splits sum.splits)

lemma calls_send_note:
  "calls (snd (send_note cfg net req c bid eff)) =
     calls eff @ [\<lparr> http_method = py ''PATCH'', url = notion_url bid,
                  headers = notion_headers cfg, json_data = notion_data c,
                  timeout = 10 \<rparr>]"
  by (simp add: send_note_def requests_patch_def Let_def error_response_def
      split: prod.splits outcome.splits)

lemma get_content_str:
  "raw_content req = Inr (JStr raw) \<Longrightarrow> get_content req = Inr (strip raw)"
  by (simp add: get_content_def)

lemma raw_content_form:
  "\<not> is_json req \<Longrightarrow>
     raw_content req =
       Inr (JStr (case map_of (form req) (py ''content'') of None \<Rightarrow> [] | Some v \<Rightarrow> v))"
  by (simp add: raw_content_def)

lemma raw_content_json:
  "is_json req \<Longrightarrow> get_json req = Inr (JObj kvs) \<Longrightarrow>
     raw_content req =
       Inr (case map_of kvs (py ''content'') of None \<Rightarrow> JStr [] | Some v \<Rightarrow> v)"
  by (simp add: raw_content_def)

lemma write_note_of_response:
  "write_note_try cfg net req = (Inr resp, eff) \<Longrightarrow> write_note cfg net req = (resp, eff)"
  by (simp add: write_note_def)

text \<open>The ways through the \<^verbatim>\<open>try\<close> body: an exit before the call, or the call.\<close>

lemma early_exit:
  assumes "\<And>net. write_note_try cfg net req = (r, e)" and "calls e = []" and "flashes e = []"
  shows "(\<exists>r e. (\<forall>net. write_note_try cfg net req = (r, e)) \<and> calls e = [] \<and> flashes e = [])
   \<or> (\<exists>c bid. \<forall>net. write_note_try cfg net req =
          send_note cfg net req c bid (no_effects \<lparr> logs := [] \<rparr>))"
  using assms by blast

lemma write_note_try_cases:
  "(\<exists>r e. (\<forall>net. write_note_try cfg net req = (r, e)) \<and> calls e = [] \<and> flashes e = [])
   \<or> (\<exists>c bid. \<forall>net. write_note_try cfg net req =
          send_note cfg net req c bid (no_effects \<lparr> logs := [] \<rparr>))"
proof (cases "fst (validate_notion_config cfg)")
  case False
  show ?thesis
    by (rule early_exit, rule write_note_try_invalid [OF False]) (simp_all add: no_effects_def)
next
  case valid: True
  then obtain pid where pid: "PAGE_ID cfg = Some pid"
    using truthy_Some [of "PAGE_ID cfg"] by (auto simp add: valid_config_iff)
  show ?thesis
  proof (cases "get_content req")
    case (Inl e)
    show ?thesis
      by (rule early_exit, rule write_note_try_raise [OF valid Inl]) (simp_all add: no_effects_def)
  next
    case (Inr c)
    show ?thesis
    proof (cases "c = []")
      case True
      with Inr have empty: "get_content req = Inr []" by simp
      show ?thesis
        by (rule early_exit, rule write_note_try_empty [OF valid empty])
          (simp_all add: no_effects_def)
    next
      case nonempty: False
      show ?thesis
      proof (cases "length pid = 32")
        case True
        have "\<And>net. write_note_try cfg net req =
            send_note cfg net req c (fst (format_uuid pid)) (no_effects \<lparr> logs := [] \<rparr>)"
          by (rule write_note_try_send [OF valid Inr nonempty pid True])
        then show ?thesis by blast
      next
        case False
        show ?thesis
          by (rule early_exit, rule write_note_try_bad_id [OF valid Inr nonempty pid False])
            (simp_all add: no_effects_def)
      qed
    qed
  qed
qed

lemma write_note_early:
  assumes "write_note_try cfg net req = (r, e)" and "calls e = []"
  shows "calls (snd (write_note cfg net req)) = []"
  using assms by (simp add: calls_write_note)

lemma write_note_reached:
  assumes "out \<in> set (calls (snd (write_note cfg net req)))"
  shows "\<exists>c bid. (\<forall>net. write_note_try cfg net req =
            send_note cfg net req c bid (no_effects \<lparr> logs := [] \<rparr>))
          \<and> out = \<lparr> http_method = py ''PATCH'', url = notion_url bid,
                  headers = notion_headers cfg, json_data = notion_data c,
                  timeout = 10 \<rparr>"
proof -
  from write_note_try_cases [of cfg req]
  show ?thesis
  proof
    assume "\<exists>r e. (\<forall>net. write_note_try cfg net req = (r, e)) \<and> calls e = [] \<and> flashes e = []"
    then have "calls (snd (write_note cfg net req)) = []"
      using write_note_early by blast
    with assms show ?thesis by simp
  next
    assume "\<exists>c bid. \<forall>net. write_note_try cfg net req =
          send_note cfg net req c bid (no_effects \<lparr> logs := [] \<rparr>)"
    then obtain c bid where send: "\<And>net. write_note_try cfg net req =
          send_note cfg net req c bid (no_effects \<lparr> logs := [] \<rparr>)"
      by blast
    then have "calls (snd (write_note cfg net req)) =
        [\<lparr> http_method = py ''PATCH'', url = notion_url bid,
          headers = notion_headers cfg, json_data = notion_data c, timeout = 10 \<rparr>]"
      by (simp add: calls_write_note calls_send_note no_effects_def)
    with assms send show ?thesis by auto
  qed
qed

text \<open>What the handler answers once the call has been made, by outcome.\<close>

lemma write_note_after_send:
  assumes "write_note_try cfg net req = send_note cfg net req c bid (no_effects \<lparr> logs := [] \<rparr>)"
    and "out = \<lparr> http_method = py ''PATCH'', url = notion_url bid,
                  headers = notion_headers cfg, json_data = notion_data c, timeout = 10 \<rparr>"
  shows "(fst (write_note cfg net req), flashes (snd (write_note cfg net req))) =
    (case net out of
       Returns r \<Rightarrow>
         if status_code r = 200 then
           (if is_json req then (JsonResponse success_body 200, [])
            else (RedirectResponse url_for_index,
                  [(py ''Note written successfully!'', py ''success'')]))
         else
           (let (resp, eff) = error_response req
                  (py ''Failed to write note to Notion: '' @ str_int (status_code r))
                  (status_code r) no_effects
            in (resp, flashes eff))
     | Raises e \<Rightarrow>
         (let (resp, eff) =
            (if is_Timeout e then
               error_response req (py ''Request timeout - Notion API did not respond in time'')
                 408 no_effects
             else if is_ConnectionError e then
               error_response req (py ''Connection error - Unable to reach Notion API'')
                 503 no_effects
             else error_response req (py ''An unexpected error occurred'') 500 no_effects)
          in (resp, flashes eff)))"
  using assms
  by (simp add: write_note_def send_note_def requests_patch_def Let_def error_response_def
      no_effects_def flash_def logger_def split: outcome.splits)

text \<open>The outbound call, and the inputs used as examples below.\<close>

lemma write_note_calls:
  assumes "fst (validate_notion_config cfg)" and "get_content req = Inr c" and "c \<noteq> []"
    and "PAGE_ID cfg = Some pid" and "length pid = 32"
  shows "calls (snd (write_note cfg net req)) =
      [\<lparr> http_method = py ''PATCH'', url = notion_url (fst (format_uuid pid)),
         headers = notion_headers cfg, json_data = notion_data c, timeout = 10 \<rparr>]"
  using write_note_try_send [OF assms, of net]
  by (simp add: calls_write_note calls_send_note no_effects_def)

lemma example_config_valid:
  "fst (validate_notion_config
          \<lparr> NOTION_TOKEN = Some (py ''secret''), PAGE_ID = Some DEFAULT_PAGE_ID \<rparr>)"
  by (simp add: validate_notion_config_def truthy_def DEFAULT_PAGE_ID_def py_def)

lemma example_page_id_length: "length DEFAULT_PAGE_ID = 32"
  by (simp add: DEFAULT_PAGE_ID_def py_def)

lemma example_json_content:
  "get_content \<lparr> is_json = True, get_json = Inr (JObj [(py ''content'', JStr (py ''hi''))]),
                 form = [] \<rparr> = Inr (py ''hi'')"
  by (simp add: get_content_def raw_content_def strip_def isspace_def py_def)

lemma example_form_content:
  "get_content \<lparr> is_json = False, get_json = Inl (Exn OtherException []),
                 form = [(py ''content'', py ''hi'')] \<rparr> = Inr (py ''hi'')"
  by (simp add: get_content_def raw_content_def strip_def isspace_def py_def)

lemma example_content_nonempty: "py ''hi'' \<noteq> []"
  by (simp add: py_def)

lemma example_calls:
  assumes "get_content req = Inr (py ''hi'')"
  shows "calls (snd (write_note
            \<lparr> NOTION_TOKEN = Some (py ''secret''), PAGE_ID = Some DEFAULT_PAGE_ID \<rparr> net req)) =
      [\<lparr> http_method = py ''PATCH'', url = notion_url (fst (format_uuid DEFAULT_PAGE_ID)),
         headers = notion_headers
           \<lparr> NOTION_TOKEN = Some (py ''secret''), PAGE_ID = Some DEFAULT_PAGE_ID \<rparr>,
         json_data = notion_data (py ''hi''), timeout = 10 \<rparr>]"
  by (rule write_note_calls
        [OF example_config_valid assms example_content_nonempty _ example_page_id_length])
    simp

text \<open>What does not depend on the upstream body, and where the body goes.\<close>

lemma write_note_same_try:
  "write_note_try cfg net1 req = write_note_try cfg net2 req \<Longrightarrow>
     write_note cfg net1 req = write_note cfg net2 req"
  by (simp add: write_note_def)

lemma logs_after_send:
  assumes "write_note_try cfg net req = send_note cfg net req c bid (no_effects \<lparr> logs := [] \<rparr>)"
    and "out = \<lparr> http_method = py ''PATCH'', url = notion_url bid,
                  headers = notion_headers cfg, json_data = notion_data c, timeout = 10 \<rparr>"
    and "net out = Returns r" and "status_code r \<noteq> 200"
  shows "(ERROR, py ''Notion API error: '' @ str_int (status_code r) @ py '' - '' @ text_of r)
           \<in> set (logs (snd (write_note cfg net req)))"
  using assms
  by (simp add: write_note_def send_note_def requests_patch_def Let_def error_response_def
      no_effects_def flash_def logger_def)

text \<open>
  Claim C3. For every string of exactly 32 characters \<^verbatim>\<open>format_uuid\<close> returns a string of
  36 characters made of five groups of 8, 4, 4, 4 and 12 characters separated by hyphens
  (so the hyphens are at positions 8, 13, 18 and 23); the groups put together are the
  input, unchanged and in order, whatever its characters are. For every string of any
  other length it returns \<^verbatim>\<open>None\<close>.
\<close>

theorem format_uuid_spec:
  "(length raw = 32 \<longrightarrow>
      (\<exists>g1 g2 g3 g4 g5 r.
          fst (format_uuid raw) = Some r
        \<and> r = g1 @ py ''-'' @ g2 @ py ''-'' @ g3 @ py ''-'' @ g4 @ py ''-'' @ g5
        \<and> length g1 = 8 \<and> length g2 = 4 \<and> length g3 = 4 \<and> length g4 = 4 \<and> length g5 = 12
        \<and> g1 @ g2 @ g3 @ g4 @ g5 = raw
        \<and> length r = 36 \<and> r ! 8 = 45 \<and> r ! 13 = 45 \<and> r ! 18 = 45 \<and> r ! 23 = 45))
   \<and> (length raw \<noteq> 32 \<longrightarrow> fst (format_uuid raw) = None)"
proof (intro conjI impI)
  assume len: "length raw = 32"
  let ?g1 = "slice 0 8 raw" and ?g2 = "slice 8 12 raw" and ?g3 = "slice 12 16 raw"
    and ?g4 = "slice 16 20 raw" and ?g5 = "drop 20 raw"
  let ?r = "?g1 @ py ''-'' @ ?g2 @ py ''-'' @ ?g3 @ py ''-'' @ ?g4 @ py ''-'' @ ?g5"
  have l: "length ?g1 = 8" "length ?g2 = 4" "length ?g3 = 4" "length ?g4 = 4" "length ?g5 = 12"
    using len by (simp_all add: slice_def)
  have res: "fst (format_uuid raw) = Some ?r"
    using len by (simp add: format_uuid_def)
  have "length ?r = 36" using l by (simp add: hyphen)
  moreover have "?r ! 8 = 45" using l by (simp add: hyphen nth_append)
  moreover have "?r ! 13 = 45" using l by (simp add: hyphen nth_append)
  moreover have "?r ! 18 = 45" using l by (simp add: hyphen nth_append)
  moreover have "?r ! 23 = 45" using l by (simp add: hyphen nth_append)
  ultimately show "\<exists>g1 g2 g3 g4 g5 r.
          fst (format_uuid raw) = Some r
        \<and> r = g1 @ py ''-'' @ g2 @ py ''-'' @ g3 @ py ''-'' @ g4 @ py ''-'' @ g5
        \<and> length g1 = 8 \<and> length g2 = 4 \<and> length g3 = 4 \<and> length g4 = 4 \<and> length g5 = 12
        \<and> g1 @ g2 @ g3 @ g4 @ g5 = raw
        \<and> length r = 36 \<and> r ! 8 = 45 \<and> r ! 13 = 45 \<and> r ! 18 = 45 \<and> r ! 23 = 45"
    using res l slices_join [of raw] by blast
next
  assume "length raw \<noteq> 32"
  then show "fst (format_uuid raw) = None" by (simp add: format_uuid_def)
qed

text \<open>
  The theorem at a 32-character string that is not hexadecimal and at a 36-character
  string.
\<close>

theorem format_uuid_spec_witness:
  "length (py ''not-a-hex-id-but-32-chars-long!!'') = 32
   \<and> (\<exists>g1 g2 g3 g4 g5 r.
          fst (format_uuid (py ''not-a-hex-id-but-32-chars-long!!'')) = Some r
        \<and> r = g1 @ py ''-'' @ g2 @ py ''-'' @ g3 @ py ''-'' @ g4 @ py ''-'' @ g5
        \<and> length g1 = 8 \<and> length g2 = 4 \<and> length g3 = 4 \<and> length g4 = 4 \<and> length g5 = 12
        \<and> g1 @ g2 @ g3 @ g4 @ g5 = py ''not-a-hex-id-but-32-chars-long!!''
        \<and> length r = 36 \<and> r ! 8 = 45 \<and> r ! 13 = 45 \<and> r ! 18 = 45 \<and> r ! 23 = 45)
   \<and> length (py ''2020b709-67ed-803b-a28f-dc5ed49984a0'') \<noteq> 32
   \<and> fst (format_uuid (py ''2020b709-67ed-803b-a28f-dc5ed49984a0'')) = None"
proof -
  have a: "length (py ''not-a-hex-id-but-32-chars-long!!'') = 32"
    and b: "length (py ''2020b709-67ed-803b-a28f-dc5ed49984a0'') \<noteq> 32"
    by (simp_all add: py_def)
  show ?thesis
    using format_uuid_spec [of "py ''not-a-hex-id-but-32-chars-long!!''"]
      format_uuid_spec [of "py ''2020b709-67ed-803b-a28f-dc5ed49984a0''"] a b
    by blast
qed

text \<open>
  Claim C6. \<^verbatim>\<open>validate_notion_config\<close> is a function of the two configuration values alone. A
  value is missing when it is \<^verbatim>\<open>None\<close> or empty. With the credential missing the result is
  invalid with the message naming \<^verbatim>\<open>NOTION_TOKEN\<close>, also when the page identifier is missing
  too; with the credential present and the identifier missing it is invalid with the
  message naming \<^verbatim>\<open>NOTION_PAGE_ID\<close>; with both present it is valid. Two configurations with
  the same two values get the same result.
\<close>

theorem validate_notion_config_spec:
  "(\<not> truthy (NOTION_TOKEN cfg) \<longrightarrow>
      validate_notion_config cfg = (False, py ''NOTION_TOKEN environment variable is required''))
   \<and> (truthy (NOTION_TOKEN cfg) \<and> \<not> truthy (PAGE_ID cfg) \<longrightarrow>
      validate_notion_config cfg = (False, py ''NOTION_PAGE_ID environment variable is required''))
   \<and> (truthy (NOTION_TOKEN cfg) \<and> truthy (PAGE_ID cfg) \<longrightarrow>
      validate_notion_config cfg = (True, py ''Configuration valid''))
   \<and> (NOTION_TOKEN cfg = NOTION_TOKEN cfg' \<and> PAGE_ID cfg = PAGE_ID cfg' \<longrightarrow>
      validate_notion_config cfg = validate_notion_config cfg')"
  by (simp add: validate_notion_config_def)

text \<open>
  The theorem with both values missing, with only the identifier missing, and with both
  present.
\<close>

theorem validate_notion_config_spec_witness:
  "validate_notion_config \<lparr> NOTION_TOKEN = None, PAGE_ID = None \<rparr>
     = (False, py ''NOTION_TOKEN environment variable is required'')
   \<and> validate_notion_config \<lparr> NOTION_TOKEN = Some (py ''secret''), PAGE_ID = Some [] \<rparr>
     = (False, py ''NOTION_PAGE_ID environment variable is required'')
   \<and> validate_notion_config \<lparr> NOTION_TOKEN = Some (py ''secret''), PAGE_ID = Some DEFAULT_PAGE_ID \<rparr>
     = (True, py ''Configuration valid'')"
  using validate_notion_config_spec
      [of "\<lparr> NOTION_TOKEN = None, PAGE_ID = None \<rparr>" "\<lparr> NOTION_TOKEN = None, PAGE_ID = None \<rparr>"]
    validate_notion_config_spec
      [of "\<lparr> NOTION_TOKEN = Some (py ''secret''), PAGE_ID = Some [] \<rparr>"
          "\<lparr> NOTION_TOKEN = Some (py ''secret''), PAGE_ID = Some [] \<rparr>"]
    validate_notion_config_spec
      [of "\<lparr> NOTION_TOKEN = Some (py ''secret''), PAGE_ID = Some DEFAULT_PAGE_ID \<rparr>"
          "\<lparr> NOTION_TOKEN = Some (py ''secret''), PAGE_ID = Some DEFAULT_PAGE_ID \<rparr>"]
  by (simp add: truthy_def py_def DEFAULT_PAGE_ID_def)

text \<open>
  Claim C8. For every configuration \<^verbatim>\<open>health_check\<close> answers with status 200 and a JSON
  object whose \<^verbatim>\<open>status\<close> is \<^verbatim>\<open>healthy\<close>, whose \<^verbatim>\<open>notion_configured\<close> is the validator's
  flag and whose \<^verbatim>\<open>message\<close> is the validator's message, and it makes no outbound call.
\<close>

theorem health_check_spec:
  "fst (health_check cfg) =
     JsonResponse
       (JObj [(py ''status'', JStr (py ''healthy'')),
              (py ''notion_configured'', JBool (fst (validate_notion_config cfg))),
              (py ''message'', JStr (snd (validate_notion_config cfg)))]) 200
   \<and> http_status (fst (health_check cfg)) = 200
   \<and> calls (snd (health_check cfg)) = []"
  by (simp add: health_check_def no_effects_def split: prod.split)

text \<open>
  The theorem at a configuration without credential: the endpoint still answers 200.
\<close>

theorem health_check_spec_witness:
  "fst (health_check \<lparr> NOTION_TOKEN = None, PAGE_ID = Some DEFAULT_PAGE_ID \<rparr>) =
     JsonResponse
       (JObj [(py ''status'', JStr (py ''healthy'')),
              (py ''notion_configured'', JBool False),
              (py ''message'', JStr (py ''NOTION_TOKEN environment variable is required''))]) 200"
  using health_check_spec [of "\<lparr> NOTION_TOKEN = None, PAGE_ID = Some DEFAULT_PAGE_ID \<rparr>"]
  by (simp add: validate_notion_config_def truthy_def)

text \<open>
  Claim C5. With a valid configuration, a request whose content is a string that is empty
  once trimmed (whitespace only, or the empty default of an absent field) is answered with
  status 400 and the message \<^verbatim>\<open>Content cannot be empty\<close>, and no outbound call is made. This
  holds for JSON requests and for form submissions alike.
\<close>

theorem write_note_empty_content:
  assumes "fst (validate_notion_config cfg)"
    and "raw_content req = Inr (JStr raw)"
    and "strip raw = []"
  shows "fst (write_note cfg net req) = JsonResponse (error_body (py ''Content cannot be empty'')) 400
    \<and> http_status (fst (write_note cfg net req)) = 400
    \<and> calls (snd (write_note cfg net req)) = []"
proof -
  have "get_content req = Inr []"
    using assms(2,3) get_content_str by fastforce
  then have "write_note cfg net req =
      (JsonResponse (error_body (py ''Content cannot be empty'')) 400,
       logger WARNING (py ''Empty content provided'') no_effects)"
    using assms(1) by (simp add: write_note_try_empty write_note_of_response)
  then show ?thesis by (simp add: no_effects_def)
qed


text \<open>
  The theorem at a form submission of blanks, a tab and a newline, and at a JSON object
  without a \<^verbatim>\<open>content\<close> field.
\<close>

theorem write_note_empty_content_witness:
  "fst (write_note \<lparr> NOTION_TOKEN = Some (py ''secret''), PAGE_ID = Some DEFAULT_PAGE_ID \<rparr>
          (\<lambda>out. Returns \<lparr> status_code = 200, text_of = [] \<rparr>)
          \<lparr> is_json = False, get_json = Inl (Exn OtherException []),
            form = [(py ''content'', [32, 9, 10, 32])] \<rparr>)
     = JsonResponse (error_body (py ''Content cannot be empty'')) 400
   \<and> calls (snd (write_note
          \<lparr> NOTION_TOKEN = Some (py ''secret''), PAGE_ID = Some DEFAULT_PAGE_ID \<rparr>
          (\<lambda>out. Returns \<lparr> status_code = 200, text_of = [] \<rparr>)
          \<lparr> is_json = True, get_json = Inr (JObj []), form = [] \<rparr>)) = []"
proof -
  let ?cfg = "\<lparr> NOTION_TOKEN = Some (py ''secret''), PAGE_ID = Some DEFAULT_PAGE_ID \<rparr>"
  let ?form = "\<lparr> is_json = False, get_json = Inl (Exn OtherException []),
                 form = [(py ''content'', [32, 9, 10, 32])] \<rparr>"
  let ?json = "\<lparr> is_json = True, get_json = Inr (JObj []), form = [] \<rparr>"
  have valid: "fst (validate_notion_config ?cfg)"
    by (simp add: validate_notion_config_def truthy_def DEFAULT_PAGE_ID_def py_def)
  have form: "raw_content ?form = Inr (JStr [32, 9, 10, 32])"
    by (simp add: raw_content_def)
  have json: "raw_content ?json = Inr (JStr [])"
    by (simp add: raw_content_def)
  have ws: "strip [32, 9, 10, 32] = []" "strip [] = []"
    by (simp_all add: strip_def isspace_def)
  show ?thesis
    using write_note_empty_content [OF valid form ws(1)]
      write_note_empty_content [OF valid json ws(2)]
    by simp
qed


text \<open>
  Claim C10. With a valid configuration, a JSON request whose \<^verbatim>\<open>content\<close> field is present
  but not a string makes \<^verbatim>\<open>.strip()\<close> raise; the generic \<^verbatim>\<open>except\<close> clause answers with status
  500 and the message \<^verbatim>\<open>An unexpected error occurred\<close>, not with 400, and no outbound call is
  made.
\<close>

theorem write_note_non_string_content:
  assumes "fst (validate_notion_config cfg)"
    and "is_json req"
    and "get_json req = Inr (JObj kvs)"
    and "map_of kvs (py ''content'') = Some v"
    and "\<And>s. v \<noteq> JStr s"
  shows "fst (write_note cfg net req) =
           JsonResponse (error_body (py ''An unexpected error occurred'')) 500
    \<and> http_status (fst (write_note cfg net req)) = 500
    \<and> calls (snd (write_note cfg net req)) = []"
proof -
  have "raw_content req = Inr v"
    using assms(2,3,4) by (simp add: raw_content_json)
  moreover have "call_strip v = Inl (no_attribute v ''strip'')"
    using assms(5) by (cases v) auto
  ultimately have "get_content req = Inl (no_attribute v ''strip'')"
    by (simp add: get_content_def)
  then have "write_note_try cfg net req = (Inl (no_attribute v ''strip''), no_effects)"
    using assms(1) by (rule write_note_try_raise [rotated])
  then show ?thesis
    using assms(2)
    by (simp add: write_note_def no_attribute_def error_response_def no_effects_def)
qed



text \<open>
  The theorem at the contents \<^verbatim>\<open>42\<close> and \<^verbatim>\<open>null\<close>.
\<close>

theorem write_note_non_string_content_witness:
  "fst (write_note
      \<lparr> NOTION_TOKEN = Some (py ''secret''), PAGE_ID = Some DEFAULT_PAGE_ID \<rparr>
      (\<lambda>out. Returns \<lparr> status_code = 200, text_of = [] \<rparr>)
      \<lparr> is_json = True, get_json = Inr (JObj [(py ''content'', JInt 42)]), form = [] \<rparr>)
     = JsonResponse (error_body (py ''An unexpected error occurred'')) 500
   \<and> fst (write_note
      \<lparr> NOTION_TOKEN = Some (py ''secret''), PAGE_ID = Some DEFAULT_PAGE_ID \<rparr>
      (\<lambda>out. Returns \<lparr> status_code = 200, text_of = [] \<rparr>)
      \<lparr> is_json = True, get_json = Inr (JObj [(py ''content'', JNull)]), form = [] \<rparr>)
     = JsonResponse (error_body (py ''An unexpected error occurred'')) 500"
proof -
  let ?cfg = "\<lparr> NOTION_TOKEN = Some (py ''secret''), PAGE_ID = Some DEFAULT_PAGE_ID \<rparr>"
  have valid: "fst (validate_notion_config ?cfg)"
    by (simp add: validate_notion_config_def truthy_def DEFAULT_PAGE_ID_def py_def)
  show ?thesis
    using write_note_non_string_content
        [of ?cfg "\<lparr> is_json = True, get_json = Inr (JObj [(py ''content'', JInt 42)]), form = [] \<rparr>"
            "[(py ''content'', JInt 42)]" "JInt 42", OF valid]
      write_note_non_string_content
        [of ?cfg "\<lparr> is_json = True, get_json = Inr (JObj [(py ''content'', JNull)]), form = [] \<rparr>"
            "[(py ''content'', JNull)]" "JNull", OF valid]
    by simp
qed

text \<open>
  Claim C1 says that a form submission never gets a JSON body on failure. The handler is
  evaluated here at a form submission of three blanks with a valid configuration: the answer
  is the JSON body with status 400, and nothing is flashed. The three validation failures
  (lines 49, 59 and 65) return \<^verbatim>\<open>jsonify\<close> without looking at \<^verbatim>\<open>request.is_json\<close>, unlike the
  five later exits of the same function.
\<close>

theorem write_note_form_validation_error_is_json:
  "write_note
      \<lparr> NOTION_TOKEN = Some (py ''secret''), PAGE_ID = Some DEFAULT_PAGE_ID \<rparr> net
      \<lparr> is_json = False, get_json = Inl (Exn OtherException []),
        form = [(py ''content'', py ''   '')] \<rparr>
    = (JsonResponse (error_body (py ''Content cannot be empty'')) 400,
       \<lparr> logs = [(WARNING, py ''Empty content provided'')], calls = [], flashes = [] \<rparr>)"
proof -
  let ?cfg = "\<lparr> NOTION_TOKEN = Some (py ''secret''), PAGE_ID = Some DEFAULT_PAGE_ID \<rparr>"
  let ?req = "\<lparr> is_json = False, get_json = Inl (Exn OtherException []),
                form = [(py ''content'', py ''   '')] \<rparr>"
  have valid: "fst (validate_notion_config ?cfg)"
    by (simp add: validate_notion_config_def truthy_def DEFAULT_PAGE_ID_def py_def)
  have "strip (py ''   '') = []"
    by (simp add: strip_def isspace_def py_def)
  then have "get_content ?req = Inr []"
    by (simp add: get_content_def raw_content_def)
  then have "write_note_try ?cfg net ?req =
      (Inr (JsonResponse (error_body (py ''Content cannot be empty'')) 400),
       logger WARNING (py ''Empty content provided'') no_effects)"
    using valid by (rule write_note_try_empty [rotated])
  then show ?thesis
    by (simp add: write_note_def logger_def no_effects_def)
qed

text \<open>
  Claim C2 says that without \<^verbatim>\<open>NOTION_PAGE_ID\<close> in the environment the validator reports
  invalid and every \<^verbatim>\<open>POST /write\<close> is answered with 400. Line 15 gives the variable a default,
  so with only the credential set the configuration is valid and a note is written.
\<close>

theorem write_note_missing_page_id_counterexample:
  "[''NOTION_TOKEN'' \<mapsto> py ''secret''] ''NOTION_PAGE_ID'' = None
   \<and> validate_notion_config (load_config [''NOTION_TOKEN'' \<mapsto> py ''secret''])
       = (True, py ''Configuration valid'')
   \<and> fst (write_note (load_config [''NOTION_TOKEN'' \<mapsto> py ''secret''])
           (\<lambda>out. Returns \<lparr> status_code = 200, text_of = [] \<rparr>)
           \<lparr> is_json = True, get_json = Inr (JObj [(py ''content'', JStr (py ''hi''))]),
             form = [] \<rparr>)
       = JsonResponse success_body 200"
proof -
  let ?cfg = "load_config [''NOTION_TOKEN'' \<mapsto> py ''secret'']"
  let ?req = "\<lparr> is_json = True, get_json = Inr (JObj [(py ''content'', JStr (py ''hi''))]),
             form = [] \<rparr>"
  let ?net = "\<lambda>out :: outbound. Returns \<lparr> status_code = 200, text_of = [] \<rparr>"
  have pid: "PAGE_ID ?cfg = Some DEFAULT_PAGE_ID"
    by (simp add: load_config_def)
  have tok: "NOTION_TOKEN ?cfg = Some (py ''secret'')"
    by (simp add: load_config_def)
  have len: "length DEFAULT_PAGE_ID = 32"
    by (simp add: DEFAULT_PAGE_ID_def py_def)
  have valid: "validate_notion_config ?cfg = (True, py ''Configuration valid'')"
    unfolding validate_notion_config_def pid tok
    by (simp add: truthy_def DEFAULT_PAGE_ID_def py_def)
  then have ok: "fst (validate_notion_config ?cfg)"
    by simp
  have content: "get_content ?req = Inr (py ''hi'')"
    by (simp add: get_content_def raw_content_def strip_def isspace_def py_def)
  have nonempty: "py ''hi'' \<noteq> []"
    by (simp add: py_def)
  have "write_note_try ?cfg ?net ?req =
      send_note ?cfg ?net ?req (py ''hi'') (fst (format_uuid DEFAULT_PAGE_ID))
        (no_effects \<lparr> logs := [] \<rparr>)"
    by (rule write_note_try_send [OF ok content nonempty pid len])
  then have "fst (write_note ?cfg ?net ?req) = JsonResponse success_body 200"
    using write_note_after_send [of ?cfg ?net ?req "py ''hi''" "fst (format_uuid DEFAULT_PAGE_ID)"]
    by simp
  with valid show ?thesis by simp
qed

text \<open>
  Claim C2, amended. When \<^verbatim>\<open>NOTION_PAGE_ID\<close> is absent from the environment, \<^verbatim>\<open>PAGE_ID\<close> is the
  built-in default and the configuration is valid exactly when the credential is present.
  When \<^verbatim>\<open>NOTION_PAGE_ID\<close> is set to the empty string, the validator reports invalid (naming
  the page identifier when the credential is present) and every \<^verbatim>\<open>POST /write\<close> is answered
  with status 400 carrying the validator's message, without any outbound call.
\<close>

theorem page_id_default_and_empty:
  "(environ ''NOTION_PAGE_ID'' = None \<longrightarrow>
       PAGE_ID (load_config environ) = Some DEFAULT_PAGE_ID
     \<and> fst (validate_notion_config (load_config environ)) = truthy (environ ''NOTION_TOKEN''))
   \<and> (environ ''NOTION_PAGE_ID'' = Some [] \<longrightarrow>
       \<not> fst (validate_notion_config (load_config environ))
     \<and> (truthy (environ ''NOTION_TOKEN'') \<longrightarrow>
          snd (validate_notion_config (load_config environ))
            = py ''NOTION_PAGE_ID environment variable is required'')
     \<and> fst (write_note (load_config environ) net req)
          = JsonResponse (error_body (snd (validate_notion_config (load_config environ)))) 400
     \<and> calls (snd (write_note (load_config environ) net req)) = [])"
proof (intro conjI impI)
  assume "environ ''NOTION_PAGE_ID'' = None"
  then show "PAGE_ID (load_config environ) = Some DEFAULT_PAGE_ID"
    and "fst (validate_notion_config (load_config environ)) = truthy (environ ''NOTION_TOKEN'')"
    by (simp_all add: load_config_def validate_notion_config_def)
      (simp add: truthy_def DEFAULT_PAGE_ID_def py_def)
next
  assume empty: "environ ''NOTION_PAGE_ID'' = Some []"
  then show invalid: "\<not> fst (validate_notion_config (load_config environ))"
    by (simp add: load_config_def validate_notion_config_def truthy_def)
  from write_note_try_invalid [OF invalid, of net req]
  show "fst (write_note (load_config environ) net req)
          = JsonResponse (error_body (snd (validate_notion_config (load_config environ)))) 400"
    and "calls (snd (write_note (load_config environ) net req)) = []"
    by (simp_all add: write_note_def no_effects_def)
next
  assume "environ ''NOTION_PAGE_ID'' = Some []" and "truthy (environ ''NOTION_TOKEN'')"
  then show "snd (validate_notion_config (load_config environ))
            = py ''NOTION_PAGE_ID environment variable is required''"
    by (simp add: load_config_def validate_notion_config_def truthy_def)
qed


text \<open>
  The theorem at an environment with the credential only, and at one where the page
  identifier is set to the empty string.
\<close>

theorem page_id_default_and_empty_witness:
  "PAGE_ID (load_config [''NOTION_TOKEN'' \<mapsto> py ''secret'']) = Some DEFAULT_PAGE_ID
   \<and> fst (validate_notion_config (load_config [''NOTION_TOKEN'' \<mapsto> py ''secret'']))
   \<and> fst (write_note
        (load_config [''NOTION_TOKEN'' \<mapsto> py ''secret'', ''NOTION_PAGE_ID'' \<mapsto> []])
        (\<lambda>out. Returns \<lparr> status_code = 200, text_of = [] \<rparr>)
        \<lparr> is_json = True, get_json = Inr (JObj [(py ''content'', JStr (py ''hi''))]),
          form = [] \<rparr>)
     = JsonResponse (error_body (py ''NOTION_PAGE_ID environment variable is required'')) 400"
proof -
  have "truthy (Some (py ''secret''))"
    by (simp add: truthy_def py_def)
  then show ?thesis
    using page_id_default_and_empty [of "[''NOTION_TOKEN'' \<mapsto> py ''secret'']"]
      page_id_default_and_empty
        [of "[''NOTION_TOKEN'' \<mapsto> py ''secret'', ''NOTION_PAGE_ID'' \<mapsto> []]"
            "\<lambda>out. Returns \<lparr> status_code = 200, text_of = [] \<rparr>"
            "\<lparr> is_json = True, get_json = Inr (JObj [(py ''content'', JStr (py ''hi''))]),
               form = [] \<rparr>"]
    by simp
qed

text \<open>
  Claim C4, amended. Once the outbound call \<open>out\<close> has been made, the answer is decided by
  its outcome and by \<^verbatim>\<open>request.is_json\<close>. For a JSON request: upstream 200 gives the success
  body with status 200; upstream status \<open>S \<noteq> 200\<close> gives status \<open>S\<close> with a message ending in the
  decimal \<open>S\<close>; a timeout gives 408; a connection error that is not a timeout gives 503; any
  other exception gives 500 with the fixed message \<^verbatim>\<open>An unexpected error occurred\<close>. For a form
  submission every one of these outcomes gives a redirect to the index page, with the
  success message flashed for upstream 200 and \<^verbatim>\<open>Error: \<close> followed by the same message as in
  JSON mode flashed otherwise.
\<close>

theorem write_note_outcome_mapping:
  assumes "write_note cfg net req = (resp, eff)" and "out \<in> set (calls eff)"
  shows
    "(\<forall>r. net out = Returns r \<and> status_code r = 200 \<longrightarrow>
        (is_json req \<longrightarrow>
           resp = JsonResponse
             (JObj [(py ''status'', JStr (py ''success'')),
                    (py ''message'', JStr (py ''Note written successfully''))]) 200)
      \<and> (\<not> is_json req \<longrightarrow>
           resp = RedirectResponse (py ''/'')
         \<and> flashes eff = [(py ''Note written successfully!'', py ''success'')]))
   \<and> (\<forall>r. net out = Returns r \<and> status_code r \<noteq> 200 \<longrightarrow>
        (is_json req \<longrightarrow>
           resp = JsonResponse
             (error_body (py ''Failed to write note to Notion: '' @ str_int (status_code r)))
             (status_code r))
      \<and> (\<not> is_json req \<longrightarrow>
           resp = RedirectResponse (py ''/'')
         \<and> flashes eff =
             [(py ''Error: '' @ py ''Failed to write note to Notion: ''
                 @ str_int (status_code r), py ''error'')]))
   \<and> (\<forall>e. net out = Raises e \<and> is_Timeout e \<longrightarrow>
        (is_json req \<longrightarrow>
           resp = JsonResponse
             (error_body (py ''Request timeout - Notion API did not respond in time'')) 408)
      \<and> (\<not> is_json req \<longrightarrow>
           resp = RedirectResponse (py ''/'')
         \<and> flashes eff =
             [(py ''Error: '' @ py ''Request timeout - Notion API did not respond in time'',
               py ''error'')]))
   \<and> (\<forall>e. net out = Raises e \<and> \<not> is_Timeout e \<and> is_ConnectionError e \<longrightarrow>
        (is_json req \<longrightarrow>
           resp = JsonResponse
             (error_body (py ''Connection error - Unable to reach Notion API'')) 503)
      \<and> (\<not> is_json req \<longrightarrow>
           resp = RedirectResponse (py ''/'')
         \<and> flashes eff =
             [(py ''Error: '' @ py ''Connection error - Unable to reach Notion API'',
               py ''error'')]))
   \<and> (\<forall>e. net out = Raises e \<and> \<not> is_Timeout e \<and> \<not> is_ConnectionError e \<longrightarrow>
        (is_json req \<longrightarrow>
           resp = JsonResponse (error_body (py ''An unexpected error occurred'')) 500)
      \<and> (\<not> is_json req \<longrightarrow>
           resp = RedirectResponse (py ''/'')
         \<and> flashes eff = [(py ''Error: '' @ py ''An unexpected error occurred'', py ''error'')]))"
proof -
  from assms have "out \<in> set (calls (snd (write_note cfg net req)))"
    by simp
  then obtain c bid where
    send: "write_note_try cfg net req = send_note cfg net req c bid (no_effects \<lparr> logs := [] \<rparr>)"
    and out: "out = \<lparr> http_method = py ''PATCH'', url = notion_url bid,
                  headers = notion_headers cfg, json_data = notion_data c, timeout = 10 \<rparr>"
    using write_note_reached [of out cfg net req] by blast
  note answer = write_note_after_send [OF send out, unfolded assms(1) fst_conv snd_conv]
  show ?thesis
  proof (cases "net out")
    case (Returns r)
    then show ?thesis
      using answer
      by (simp add: error_response_def flash_def no_effects_def success_body_def
          url_for_index_def split: if_splits)
  next
    case (Raises e)
    then show ?thesis
      using answer
      by (simp add: error_response_def flash_def no_effects_def url_for_index_def
          split: if_splits)
  qed
qed

text \<open>
  Claim C4 as stated gives status 408 to every request whose outbound call times out. A form
  submission whose call times out is answered with the redirect, whose status is 302.
\<close>

theorem write_note_form_timeout_counterexample:
  "calls (snd (write_note
      \<lparr> NOTION_TOKEN = Some (py ''secret''), PAGE_ID = Some DEFAULT_PAGE_ID \<rparr>
      (\<lambda>out. Raises (Exn ReadTimeout []))
      \<lparr> is_json = False, get_json = Inl (Exn OtherException []),
        form = [(py ''content'', py ''hi'')] \<rparr>)) \<noteq> []
   \<and> fst (write_note
      \<lparr> NOTION_TOKEN = Some (py ''secret''), PAGE_ID = Some DEFAULT_PAGE_ID \<rparr>
      (\<lambda>out. Raises (Exn ReadTimeout []))
      \<lparr> is_json = False, get_json = Inl (Exn OtherException []),
        form = [(py ''content'', py ''hi'')] \<rparr>) = RedirectResponse (py ''/'')
   \<and> http_status (fst (write_note
      \<lparr> NOTION_TOKEN = Some (py ''secret''), PAGE_ID = Some DEFAULT_PAGE_ID \<rparr>
      (\<lambda>out. Raises (Exn ReadTimeout []))
      \<lparr> is_json = False, get_json = Inl (Exn OtherException []),
        form = [(py ''content'', py ''hi'')] \<rparr>)) \<noteq> 408"
proof -
  let ?cfg = "\<lparr> NOTION_TOKEN = Some (py ''secret''), PAGE_ID = Some DEFAULT_PAGE_ID \<rparr>"
  let ?net = "\<lambda>out :: outbound. Raises (Exn ReadTimeout [])"
  let ?req = "\<lparr> is_json = False, get_json = Inl (Exn OtherException []),
        form = [(py ''content'', py ''hi'')] \<rparr>"
  have send: "write_note_try ?cfg ?net ?req =
      send_note ?cfg ?net ?req (py ''hi'') (fst (format_uuid DEFAULT_PAGE_ID))
        (no_effects \<lparr> logs := [] \<rparr>)"
    by (rule write_note_try_send [OF example_config_valid example_form_content
          example_content_nonempty _ example_page_id_length]) simp
  have "fst (write_note ?cfg ?net ?req) = RedirectResponse (py ''/'')"
    using write_note_after_send [OF send refl]
    by (simp add: error_response_def url_for_index_def)
  moreover have "calls (snd (write_note ?cfg ?net ?req)) \<noteq> []"
    by (simp add: example_calls [OF example_form_content])
  ultimately show ?thesis by simp
qed

text \<open>
  The amended claim at a JSON request whose call times out, at a JSON request answered 404
  upstream, and at a form submission whose call cannot connect.
\<close>

theorem write_note_outcome_mapping_witness:
  "fst (write_note
      \<lparr> NOTION_TOKEN = Some (py ''secret''), PAGE_ID = Some DEFAULT_PAGE_ID \<rparr>
      (\<lambda>out. Raises (Exn ReadTimeout []))
      \<lparr> is_json = True, get_json = Inr (JObj [(py ''content'', JStr (py ''hi''))]),
        form = [] \<rparr>)
     = JsonResponse
         (error_body (py ''Request timeout - Notion API did not respond in time'')) 408
   \<and> fst (write_note
      \<lparr> NOTION_TOKEN = Some (py ''secret''), PAGE_ID = Some DEFAULT_PAGE_ID \<rparr>
      (\<lambda>out. Returns \<lparr> status_code = 404, text_of = py ''not found'' \<rparr>)
      \<lparr> is_json = True, get_json = Inr (JObj [(py ''content'', JStr (py ''hi''))]),
        form = [] \<rparr>)
     = JsonResponse (error_body (py ''Failed to write note to Notion: 404'')) 404
   \<and> flashes (snd (write_note
      \<lparr> NOTION_TOKEN = Some (py ''secret''), PAGE_ID = Some DEFAULT_PAGE_ID \<rparr>
      (\<lambda>out. Raises (Exn ConnectionError []))
      \<lparr> is_json = False, get_json = Inl (Exn OtherException []),
        form = [(py ''content'', py ''hi'')] \<rparr>))
     = [(py ''Error: Connection error - Unable to reach Notion API'', py ''error'')]"
proof -
  let ?cfg = "\<lparr> NOTION_TOKEN = Some (py ''secret''), PAGE_ID = Some DEFAULT_PAGE_ID \<rparr>"
  let ?json = "\<lparr> is_json = True, get_json = Inr (JObj [(py ''content'', JStr (py ''hi''))]),
        form = [] \<rparr>"
  let ?form = "\<lparr> is_json = False, get_json = Inl (Exn OtherException []),
        form = [(py ''content'', py ''hi'')] \<rparr>"
  let ?out = "\<lparr> http_method = py ''PATCH'', url = notion_url (fst (format_uuid DEFAULT_PAGE_ID)),
         headers = notion_headers ?cfg, json_data = notion_data (py ''hi''), timeout = 10 \<rparr>"
  have reached: "?out \<in> set (calls (snd (write_note ?cfg net ?json)))"
    "?out \<in> set (calls (snd (write_note ?cfg net ?form)))" for net
    by (simp_all add: example_calls [OF example_json_content]
        example_calls [OF example_form_content])
  have digits: "py ''Failed to write note to Notion: '' @ str_int 404
      = py ''Failed to write note to Notion: 404''"
    "py ''Error: '' @ py ''Connection error - Unable to reach Notion API''
      = py ''Error: Connection error - Unable to reach Notion API''"
    by (simp_all add: str_int_def str_nat.simps py_def)
  show ?thesis
    using write_note_outcome_mapping [OF surjective_pairing reached(1),
        of "\<lambda>out. Raises (Exn ReadTimeout [])"]
      write_note_outcome_mapping [OF surjective_pairing reached(1),
        of "\<lambda>out. Returns \<lparr> status_code = 404, text_of = py ''not found'' \<rparr>"]
      write_note_outcome_mapping [OF surjective_pairing reached(2),
        of "\<lambda>out. Raises (Exn ConnectionError [])"]
    by (simp add: digits)
qed

text \<open>
  Claim C9. Two runs of the handler on the same configuration and request, against upstream
  services that answer every call with the same status but different bodies, give the same
  response, the same flashed messages and the same outbound calls. The body appears only
  in the log line written for a status other than 200. (The independence holds for
  status 200 as well.)
\<close>

theorem upstream_body_not_exposed:
  assumes "\<And>out. net1 out = Returns \<lparr> status_code = code out, text_of = body1 out \<rparr>"
    and "\<And>out. net2 out = Returns \<lparr> status_code = code out, text_of = body2 out \<rparr>"
  shows "fst (write_note cfg net1 req) = fst (write_note cfg net2 req)
    \<and> flashes (snd (write_note cfg net1 req)) = flashes (snd (write_note cfg net2 req))
    \<and> calls (snd (write_note cfg net1 req)) = calls (snd (write_note cfg net2 req))
    \<and> (\<forall>out \<in> set (calls (snd (write_note cfg net1 req))). code out \<noteq> 200 \<longrightarrow>
          (ERROR, py ''Notion API error: '' @ str_int (code out) @ py '' - '' @ body1 out)
            \<in> set (logs (snd (write_note cfg net1 req))))"
proof -
  from write_note_try_cases [of cfg req]
  show ?thesis
  proof
    assume "\<exists>r e. (\<forall>net. write_note_try cfg net req = (r, e)) \<and> calls e = [] \<and> flashes e = []"
    then obtain r e where early: "\<And>net. write_note_try cfg net req = (r, e)"
      and none: "calls e = []"
      by blast
    have "write_note cfg net1 req = write_note cfg net2 req"
      by (rule write_note_same_try) (simp add: early)
    moreover have "calls (snd (write_note cfg net1 req)) = []"
      by (simp add: calls_write_note early none)
    ultimately show ?thesis by simp
  next
    assume "\<exists>c bid. \<forall>net. write_note_try cfg net req =
          send_note cfg net req c bid (no_effects \<lparr> logs := [] \<rparr>)"
    then obtain c bid where send: "\<And>net. write_note_try cfg net req =
          send_note cfg net req c bid (no_effects \<lparr> logs := [] \<rparr>)"
      by blast
    define out where "out = \<lparr> http_method = py ''PATCH'', url = notion_url bid,
                  headers = notion_headers cfg, json_data = notion_data c, timeout = 10 \<rparr>"
    have calls: "calls (snd (write_note cfg net req)) = [out]" for net
      by (simp add: calls_write_note send calls_send_note no_effects_def out_def)
    have "(fst (write_note cfg net1 req), flashes (snd (write_note cfg net1 req)))
        = (fst (write_note cfg net2 req), flashes (snd (write_note cfg net2 req)))"
      unfolding write_note_after_send [OF send out_def] assms by simp
    moreover have "code out \<noteq> 200 \<Longrightarrow>
        (ERROR, py ''Notion API error: '' @ str_int (code out) @ py '' - '' @ body1 out)
          \<in> set (logs (snd (write_note cfg net1 req)))"
      using logs_after_send [OF send out_def assms(1)] by simp
    ultimately show ?thesis
      by (simp add: calls)
  qed
qed

text \<open>
  The theorem at two upstream answers with status 404 and different bodies.
\<close>

theorem upstream_body_not_exposed_witness:
  "fst (write_note
      \<lparr> NOTION_TOKEN = Some (py ''secret''), PAGE_ID = Some DEFAULT_PAGE_ID \<rparr>
      (\<lambda>out. Returns \<lparr> status_code = 404, text_of = py ''no such block'' \<rparr>)
      \<lparr> is_json = True, get_json = Inr (JObj [(py ''content'', JStr (py ''hi''))]),
        form = [] \<rparr>)
   = fst (write_note
      \<lparr> NOTION_TOKEN = Some (py ''secret''), PAGE_ID = Some DEFAULT_PAGE_ID \<rparr>
      (\<lambda>out. Returns \<lparr> status_code = 404, text_of = py ''internal token abc'' \<rparr>)
      \<lparr> is_json = True, get_json = Inr (JObj [(py ''content'', JStr (py ''hi''))]),
        form = [] \<rparr>)
   \<and> (ERROR, py ''Notion API error: '' @ str_int 404 @ py '' - '' @ py ''no such block'')
       \<in> set (logs (snd (write_note
      \<lparr> NOTION_TOKEN = Some (py ''secret''), PAGE_ID = Some DEFAULT_PAGE_ID \<rparr>
      (\<lambda>out. Returns \<lparr> status_code = 404, text_of = py ''no such block'' \<rparr>)
      \<lparr> is_json = True, get_json = Inr (JObj [(py ''content'', JStr (py ''hi''))]),
        form = [] \<rparr>)))"
  using upstream_body_not_exposed
    [of "\<lambda>out. Returns \<lparr> status_code = 404, text_of = py ''no such block'' \<rparr>"
        "\<lambda>out. 404" "\<lambda>out. py ''no such block''"
        "\<lambda>out. Returns \<lparr> status_code = 404, text_of = py ''internal token abc'' \<rparr>"
        "\<lambda>out. py ''internal token abc''"
        "\<lparr> NOTION_TOKEN = Some (py ''secret''), PAGE_ID = Some DEFAULT_PAGE_ID \<rparr>"
        "\<lparr> is_json = True, get_json = Inr (JObj [(py ''content'', JStr (py ''hi''))]),
           form = [] \<rparr>"]
  by (simp add: example_calls [OF example_json_content])

end
